theory Spec2Isabelle
  imports Complex_Main "HOL-Library.Multiset" "HOL-Library.Word"
begin

section \<open>CubeIsoFinder: conventions of the model\<close>

text \<open>
  The functions of \<^verbatim>\<open>cube_parser.cpp\<close> are translated one by one; a loop of the source is
  a recursive function named after what it accumulates.

  The C++ type \<^verbatim>\<open>double\<close> is modelled as \<^typ>\<open>real\<close>: all arithmetic is exact, there
  is no rounding, no infinity and no NaN. A \<^verbatim>\<open>std::vector<double>\<close> is a \<^typ>\<open>real list\<close>,
  a \<^verbatim>\<open>std::string\<close> is a \<^typ>\<open>string\<close>, and a C array of fixed size is a tuple.
  Every \<^verbatim>\<open>throw\<close> of the source is a value \<open>Inl e\<close> of the result type \<open>error + 'a\<close>;
  the constructor names the kind of failure, the message of the source is given beside each
  constructor.
\<close>

datatype error =
    IOError \<comment> \<open>"Error opening file: ..."\<close>
  | ParseError_AtomsOrigin \<comment> \<open>"Error reading number of atoms and origin."\<close>
  | ParseError_Axis nat \<comment> \<open>"Error reading axis vector i"\<close>
  | LengthError \<comment> \<open>\<^verbatim>\<open>std::length_error\<close> of \<^verbatim>\<open>vector::reserve\<close>\<close>
  | CountMismatchError nat nat
      \<comment> \<open>"Error: Number of grid points read (actual) does not match expected (expected)."\<close>
  | NoMatchingSignError \<comment> \<open>"No grid points with the requested sign."\<close>
  | NoMatchingPointsError \<comment> \<open>"No orbital grid points available."\<close>
  | ZeroTotalError
      \<comment> \<open>"Total charge for the requested sign is zero." and
          "Total orbital density for the requested sign is zero."\<close>

subsection \<open>\<^verbatim>\<open>std::sort\<close> with a comparator\<close>

text \<open>
  \<^verbatim>\<open>std::sort(first, last, comp)\<close> puts the range in an order in which no element is
  \<open>comp\<close>-less than an element before it. The relative order of elements that \<open>comp\<close>
  does not separate is not fixed by the C++ standard; the model is an insertion sort, which
  fixes one such order. \<open>lt\<close> is the comparator (\<^verbatim>\<open>operator<\<close> when none is given).
\<close>

fun sort_insert :: "('a \<Rightarrow> 'a \<Rightarrow> bool) \<Rightarrow> 'a \<Rightarrow> 'a list \<Rightarrow> 'a list" where
  "sort_insert lt x [] = [x]"
| "sort_insert lt x (y # ys) = (if lt y x then y # sort_insert lt x ys else x # y # ys)"

fun std_sort :: "('a \<Rightarrow> 'a \<Rightarrow> bool) \<Rightarrow> 'a list \<Rightarrow> 'a list" where
  "std_sort lt [] = []"
| "std_sort lt (x # xs) = sort_insert lt x (std_sort lt xs)"

section \<open>The integration functions and the unit conversion\<close>

subsection \<open>Density mode\<close>

text \<open>
  The first loop of \<^verbatim>\<open>computeIsovalueFromPercentage_Density\<close>:
  \<^verbatim>\<open>if (positive && v > 0) filtered.push_back(v);
     else if (!positive && v < 0) filtered.push_back(v);\<close>
\<close>

fun sign_filter :: "bool \<Rightarrow> real list \<Rightarrow> real list" where
  "sign_filter positive [] = []"
| "sign_filter positive (v # vs) =
     (if positive \<and> v > 0 then v # sign_filter positive vs
      else if \<not> positive \<and> v < 0 then v # sign_filter positive vs
      else sign_filter positive vs)"

text \<open>\<^verbatim>\<open>double total = 0.0; for (double v : filtered) total += v;\<close>\<close>

fun sum_loop :: "real \<Rightarrow> real list \<Rightarrow> real" where
  "sum_loop tot [] = tot"
| "sum_loop tot (v # vs) = sum_loop (tot + v) vs"

text \<open>
  The accumulation loops: \<^verbatim>\<open>integ += v; if (integ >= target) return v;\<close> in the positive
  branch and \<^verbatim>\<open>integ += v; if (integ <= target) return v;\<close> in the negative one. \<open>None\<close>
  means that the loop ran to its end without returning.
\<close>

fun accumulate_ge :: "real \<Rightarrow> real \<Rightarrow> real list \<Rightarrow> real option" where
  "accumulate_ge target integ [] = None"
| "accumulate_ge target integ (v # vs) =
     (if integ + v \<ge> target then Some v else accumulate_ge target (integ + v) vs)"

fun accumulate_le :: "real \<Rightarrow> real \<Rightarrow> real list \<Rightarrow> real option" where
  "accumulate_le target integ [] = None"
| "accumulate_le target integ (v # vs) =
     (if integ + v \<le> target then Some v else accumulate_le target (integ + v) vs)"

definition computeIsovalueFromPercentage_Density ::
  "real list \<Rightarrow> real \<Rightarrow> bool \<Rightarrow> error + real" where
  "computeIsovalueFromPercentage_Density values percent positive =
     (let filtered = sign_filter positive values in
      if filtered = [] then Inl NoMatchingSignError
      else
        let tot = sum_loop 0 filtered;
            target = (percent / 100) * tot
        in
          if positive then
            (let sorted = std_sort (\<lambda>a b. a > b) filtered in
             case accumulate_ge target 0 sorted of
               Some v \<Rightarrow> Inr v
             | None \<Rightarrow> Inr (last sorted))
          else
            (let sorted = std_sort (\<lambda>a b. a < b) filtered in
             case accumulate_le target 0 sorted of
               Some v \<Rightarrow> Inr v
             | None \<Rightarrow> Inr (last sorted)))"

text \<open>
  The loop of \<^verbatim>\<open>computePercentageFromIsovalue_Density\<close>, on the pair \<open>(tot, integ)\<close> of the source's \<^verbatim>\<open>total\<close> and \<^verbatim>\<open>integ\<close>.
\<close>

fun density_loop :: "real \<Rightarrow> bool \<Rightarrow> real \<times> real \<Rightarrow> real list \<Rightarrow> real \<times> real" where
  "density_loop isovalue positive (tot, integ) [] = (tot, integ)"
| "density_loop isovalue positive (tot, integ) (v # vs) =
     (if positive \<and> v > 0 then
        density_loop isovalue positive
          (tot + v, if v \<ge> isovalue then integ + v else integ) vs
      else if \<not> positive \<and> v < 0 then
        density_loop isovalue positive
          (tot + v, if v \<le> isovalue then integ + v else integ) vs
      else density_loop isovalue positive (tot, integ) vs)"

definition computePercentageFromIsovalue_Density ::
  "real list \<Rightarrow> real \<Rightarrow> bool \<Rightarrow> error + real" where
  "computePercentageFromIsovalue_Density values isovalue positive =
     (case density_loop isovalue positive (0, 0) values of
        (tot, integ) \<Rightarrow>
          if tot = 0 then Inl ZeroTotalError
          else Inr ((integ / tot) * 100))"

subsection \<open>Orbital mode\<close>

record OrbitalPoint =
  density :: real
  "value" :: real
  index :: nat

text \<open>
  \<^verbatim>\<open>for (size_t i = 0; i < values.size(); i++) { double v = values[i];
       points.push_back({v * v, v, i}); }\<close>, from index \<open>i\<close> on.
\<close>

fun make_points :: "nat \<Rightarrow> real list \<Rightarrow> OrbitalPoint list" where
  "make_points i [] = []"
| "make_points i (v # vs) =
     \<lparr>density = v * v, value = v, index = i\<rparr> # make_points (Suc i) vs"

text \<open>\<^verbatim>\<open>for (const auto &p : points) total += p.density;\<close>\<close>

fun density_sum_loop :: "real \<Rightarrow> OrbitalPoint list \<Rightarrow> real" where
  "density_sum_loop tot [] = tot"
| "density_sum_loop tot (p # ps) = density_sum_loop (tot + density p) ps"

text \<open>\<^verbatim>\<open>integ += p.density; if (integ >= target) return p.value;\<close>\<close>

fun accumulate_points :: "real \<Rightarrow> real \<Rightarrow> OrbitalPoint list \<Rightarrow> real option" where
  "accumulate_points target integ [] = None"
| "accumulate_points target integ (p # ps) =
     (if integ + density p \<ge> target then Some (value p)
      else accumulate_points target (integ + density p) ps)"

text \<open>The parameter \<open>positive\<close> is unnamed in the source and never read.\<close>

definition computeIsovalueFromPercentage_Orbital ::
  "real list \<Rightarrow> real \<Rightarrow> bool \<Rightarrow> error + real" where
  "computeIsovalueFromPercentage_Orbital values percent positive =
     (let points = make_points 0 values in
      if points = [] then Inl NoMatchingPointsError
      else
        let tot = density_sum_loop 0 points;
            target = (percent / 100) * tot;
            sorted = std_sort (\<lambda>a b. density a > density b) points
        in case accumulate_points target 0 sorted of
             Some v \<Rightarrow> Inr v
           | None \<Rightarrow> Inr (value (last sorted)))"

text \<open>
  The loop of \<^verbatim>\<open>computePercentageFromIsovalue_Orbital\<close>, on the pair \<open>(tot, integ)\<close> of the source's \<^verbatim>\<open>total\<close> and \<^verbatim>\<open>integ\<close>:
  \<^verbatim>\<open>double d = v * v; total += d; if (d >= thresholdDensity) integ += d;\<close>
\<close>

fun orbital_loop :: "real \<Rightarrow> real \<times> real \<Rightarrow> real list \<Rightarrow> real \<times> real" where
  "orbital_loop thresholdDensity (tot, integ) [] = (tot, integ)"
| "orbital_loop thresholdDensity (tot, integ) (v # vs) =
     orbital_loop thresholdDensity
       (tot + v * v, if v * v \<ge> thresholdDensity then integ + v * v else integ) vs"

definition computePercentageFromIsovalue_Orbital ::
  "real list \<Rightarrow> real \<Rightarrow> bool \<Rightarrow> error + real" where
  "computePercentageFromIsovalue_Orbital values isovalue positive =
     (let thresholdDensity = isovalue * isovalue in
      case orbital_loop thresholdDensity (0, 0) values of
        (tot, integ) \<Rightarrow>
          if tot = 0 then Inl ZeroTotalError
          else Inr ((integ / tot) * 100))"

subsection \<open>Unit conversion\<close>

text \<open>
  \<^verbatim>\<open>std::pow(0.529177210544, 3.0)\<close> is the real power \<open>powr\<close>; \<open>nativeIsAngstrom\<close> is not
  read in \<^verbatim>\<open>convertDensity\<close>.
\<close>

definition convertDensity :: "real \<Rightarrow> bool \<Rightarrow> real" where
  "convertDensity nativeDensity nativeIsAngstrom =
     (let bohr3_in_angstrom3 = (0.529177210544 :: real) powr 3.0
      in nativeDensity / bohr3_in_angstrom3)"

definition convertOrbital :: "real \<Rightarrow> bool \<Rightarrow> real" where
  "convertOrbital nativeOrbital nativeIsAngstrom =
     (if \<not> nativeIsAngstrom then nativeOrbital / ((0.529177210544 :: real) powr 1.5)
      else nativeOrbital)"

section \<open>Helper functions, the header and the unit detection\<close>

subsection \<open>\<^verbatim>\<open>trim\<close> and \<^verbatim>\<open>icontains\<close>\<close>

text \<open>
  \<^verbatim>\<open>trim\<close> with the string operations it calls. \<^verbatim>\<open>npos\<close> is \<open>None\<close>; the second
  search cannot return it once the first has found a character.
\<close>

definition whitespace :: string where
  "whitespace = [CHR '' '', CHR 0x09, CHR 0x0A, CHR 0x0D, CHR 0x0C, CHR 0x0B]"

fun find_first_not_of :: "string \<Rightarrow> string \<Rightarrow> nat option" where
  "find_first_not_of ws [] = None"
| "find_first_not_of ws (c # cs) =
     (if c \<in> set ws then map_option Suc (find_first_not_of ws cs) else Some 0)"

definition find_last_not_of :: "string \<Rightarrow> string \<Rightarrow> nat option" where
  "find_last_not_of ws s =
     (case find_first_not_of ws (rev s) of
        None \<Rightarrow> None
      | Some k \<Rightarrow> Some (length s - 1 - k))"

definition std_substr :: "string \<Rightarrow> nat \<Rightarrow> nat \<Rightarrow> string" where
  "std_substr s pos n = take n (drop pos s)"

definition trim :: "string \<Rightarrow> string" where
  "trim s =
     (case find_first_not_of whitespace s of
        None \<Rightarrow> []
      | Some start \<Rightarrow>
          (case find_last_not_of whitespace s of
             None \<Rightarrow> drop start s
           | Some end' \<Rightarrow> std_substr s start (end' - start + 1)))"

text \<open>
  \<^verbatim>\<open>std::tolower\<close> in the "C" locale, on the code of a character: only the letters
  \<open>A\<close> to \<open>Z\<close> change.
\<close>

definition tolower :: "char \<Rightarrow> nat" where
  "tolower c =
     (let n = (of_char c :: nat) in if 65 \<le> n \<and> n \<le> 90 then n + 32 else n)"

text \<open>
  \<^verbatim>\<open>std::search(first, last, s_first, s_last, pred)\<close> returns the first position at which
  the pattern matches element by element, or \<open>last\<close> when there is none; for an empty
  pattern it returns \<open>first\<close>. Positions are indices, and \<open>last\<close> is the length of the
  data. \<^verbatim>\<open>icontains\<close> compares the result with \<^verbatim>\<open>data.end()\<close>.
\<close>

fun match_at :: "('a \<Rightarrow> 'b \<Rightarrow> bool) \<Rightarrow> 'a list \<Rightarrow> 'b list \<Rightarrow> bool" where
  "match_at pred ds [] = True"
| "match_at pred [] (p # ps) = False"
| "match_at pred (d # ds) (p # ps) = (pred d p \<and> match_at pred ds ps)"

fun std_search :: "('a \<Rightarrow> 'b \<Rightarrow> bool) \<Rightarrow> 'a list \<Rightarrow> 'b list \<Rightarrow> nat" where
  "std_search pred [] pat = 0"
| "std_search pred (d # ds) pat =
     (if match_at pred (d # ds) pat then 0 else Suc (std_search pred ds pat))"

definition icontains :: "string \<Rightarrow> string \<Rightarrow> bool" where
  "icontains data substr =
     (std_search (\<lambda>ch1 ch2. tolower ch1 = tolower ch2) data substr \<noteq> length data)"

subsection \<open>The header and \<^verbatim>\<open>detectAngstrom\<close>\<close>

text \<open>
  A row of \<^verbatim>\<open>axisVectors\<close> is \<open>(n, ax, ay, az)\<close>: the voxel count and the three components
  of the step vector. \<^verbatim>\<open>numAtoms\<close> and \<^verbatim>\<open>dims\<close> are \<^verbatim>\<open>int\<close>; the parser only stores
  values of the 32-bit range in them.
\<close>

type_synonym axis_row = "real \<times> real \<times> real \<times> real"

record CubeHeader =
  comment1 :: string
  comment2 :: string
  numAtoms :: int
  origin :: "real \<times> real \<times> real"
  dims :: "int \<times> int \<times> int"
  axisVectors :: "axis_row \<times> axis_row \<times> axis_row"
  calcType :: string
  isOrbital :: bool

text \<open>
  The loop of \<^verbatim>\<open>detectAngstrom\<close> over the three rows:
  \<^verbatim>\<open>double len = std::sqrt(ax * ax + ay * ay + az * az); totalLength += len;\<close>
\<close>

fun axis_length_loop :: "real \<Rightarrow> axis_row list \<Rightarrow> real" where
  "axis_length_loop totalLength [] = totalLength"
| "axis_length_loop totalLength ((n, ax, ay, az) # rows) =
     axis_length_loop (totalLength + sqrt (ax * ax + ay * ay + az * az)) rows"

definition detectAngstrom :: "CubeHeader \<Rightarrow> bool" where
  "detectAngstrom header =
     (if icontains (comment1 header) ''angstrom'' \<or> icontains (comment2 header) ''angstrom''
      then True
      else if icontains (comment1 header) ''bohr'' \<or> icontains (comment2 header) ''bohr''
      then False
      else
        (case axisVectors header of
           (a0, a1, a2) \<Rightarrow>
             let totalLength = axis_length_loop 0 [a0, a1, a2];
                 avgLength = totalLength / 3
             in avgLength > 2))"

record CubeData =
  header :: CubeHeader
  "values" :: "real list"

section \<open>The parser\<close>

subsection \<open>Input streams\<close>

text \<open>
  An input stream (\<^verbatim>\<open>std::ifstream\<close>, \<^verbatim>\<open>std::istringstream\<close>) is the text not yet read and
  the two state bits the parser can meet; \<^verbatim>\<open>badbit\<close> is never set. The formatted
  extractions follow the C++ library's rules for the classic locale: a sentry that skips
  white space, then the longest prefix that is a decimal number. A \<^verbatim>\<open>double\<close> read from
  text is the exact value of its decimal numeral; overflow of a \<^verbatim>\<open>double\<close>, hexadecimal
  numerals, \<^verbatim>\<open>inf\<close> and \<^verbatim>\<open>nan\<close> are outside the model. \<^verbatim>\<open>int\<close> has 32 bits and
  \<^verbatim>\<open>size_t\<close> has 64.
\<close>

record istream =
  buf :: string
  eofbit :: bool
  failbit :: bool

definition good :: "istream \<Rightarrow> bool" where
  "good s = (\<not> eofbit s \<and> \<not> failbit s)"

definition open_stream :: "string \<Rightarrow> istream" where
  "open_stream contents = \<lparr>buf = contents, eofbit = False, failbit = False\<rparr>"

text \<open>
  \<^verbatim>\<open>std::getline(is, line)\<close>: on a stream that is not good it sets \<^verbatim>\<open>failbit\<close> and leaves
  \<open>line\<close> as it was; otherwise it clears \<open>line\<close> and reads up to and including the next
  newline, or to the end of the input (\<^verbatim>\<open>eofbit\<close>); reading no character at all sets
  \<^verbatim>\<open>failbit\<close> too.
\<close>

definition getline :: "istream \<Rightarrow> string \<Rightarrow> istream \<times> string" where
  "getline s line =
     (if good s then
        (if buf s = [] then (s\<lparr>eofbit := True, failbit := True\<rparr>, [])
         else
           (case dropWhile (\<lambda>c. c \<noteq> CHR 0x0A) (buf s) of
              [] \<Rightarrow> (s\<lparr>buf := [], eofbit := True\<rparr>, buf s)
            | nl # rest \<Rightarrow> (s\<lparr>buf := rest\<rparr>, takeWhile (\<lambda>c. c \<noteq> CHR 0x0A) (buf s))))
      else (s\<lparr>failbit := True\<rparr>, line))"

definition isspace :: "char \<Rightarrow> bool" where
  "isspace c = (c \<in> set whitespace)"

definition isdigit :: "char \<Rightarrow> bool" where
  "isdigit c = (let n = (of_char c :: nat) in 48 \<le> n \<and> n \<le> 57)"

definition digits_value :: "string \<Rightarrow> nat" where
  "digits_value ds = foldl (\<lambda>a c. 10 * a + (of_char c - 48)) 0 ds"

text \<open>The sentry of a formatted extraction, with \<^verbatim>\<open>skipws\<close> set.\<close>

definition sentry :: "istream \<Rightarrow> istream \<times> bool" where
  "sentry s =
     (if good s then
        (let rest = dropWhile isspace (buf s) in
         if rest = [] then (s\<lparr>buf := [], eofbit := True, failbit := True\<rparr>, False)
         else (s\<lparr>buf := rest\<rparr>, True))
      else (s\<lparr>failbit := True\<rparr>, False))"

definition read_sign :: "string \<Rightarrow> bool \<times> string" where
  "read_sign cs =
     (case cs of
        [] \<Rightarrow> (False, [])
      | c # rest \<Rightarrow>
          if c = CHR ''-'' then (True, rest)
          else if c = CHR ''+'' then (False, rest)
          else (False, cs))"

text \<open>\<^verbatim>\<open>is >> i\<close> for an \<^verbatim>\<open>int\<close>: \<open>None\<close> when the extraction fails.\<close>

definition read_int :: "istream \<Rightarrow> istream \<times> int option" where
  "read_int s =
     (case sentry s of
        (s1, ok) \<Rightarrow>
          if ok then
            (case read_sign (buf s1) of
               (neg, r1) \<Rightarrow>
                 let ds = takeWhile isdigit r1;
                     r2 = dropWhile isdigit r1;
                     s2 = s1\<lparr>buf := r2, eofbit := (r2 = [])\<rparr>;
                     v = (if neg then - int (digits_value ds) else int (digits_value ds))
                 in
                   if ds = [] \<or> v < - (2 ^ 31) \<or> 2 ^ 31 - 1 < v
                   then (s2\<lparr>failbit := True\<rparr>, None)
                   else (s2, Some v))
          else (s1, None))"

text \<open>
  The exponent part of a floating-point numeral: \<open>None\<close> when an exponent letter is not
  followed by digits.
\<close>

definition read_exponent :: "string \<Rightarrow> (int \<times> string) option" where
  "read_exponent cs =
     (case cs of
        [] \<Rightarrow> Some (0, [])
      | c # rest \<Rightarrow>
          if c = CHR ''e'' \<or> c = CHR ''E'' then
            (case read_sign rest of
               (neg, r1) \<Rightarrow>
                 let ds = takeWhile isdigit r1 in
                 if ds = [] then None
                 else Some (if neg then - int (digits_value ds) else int (digits_value ds),
                            dropWhile isdigit r1))
          else Some (0, cs))"

definition read_fraction :: "string \<Rightarrow> string \<times> string" where
  "read_fraction cs =
     (case cs of
        [] \<Rightarrow> ([], [])
      | c # rest \<Rightarrow>
          if c = CHR ''.'' then (takeWhile isdigit rest, dropWhile isdigit rest)
          else ([], cs))"

text \<open>\<^verbatim>\<open>is >> val\<close> for a \<^verbatim>\<open>double\<close>: \<open>None\<close> when the extraction fails.\<close>

definition read_double :: "istream \<Rightarrow> istream \<times> real option" where
  "read_double s =
     (case sentry s of
        (s1, ok) \<Rightarrow>
          if ok then
            (case read_sign (buf s1) of
               (neg, r1) \<Rightarrow>
                 let ip = takeWhile isdigit r1;
                     r2 = dropWhile isdigit r1
                 in
                   (case read_fraction r2 of
                      (fp, r3) \<Rightarrow>
                        if ip = [] \<and> fp = []
                        then (s1\<lparr>buf := r3, eofbit := (r3 = []), failbit := True\<rparr>, None)
                        else
                          (case read_exponent r3 of
                             None \<Rightarrow> (s1\<lparr>buf := r3, eofbit := (r3 = []), failbit := True\<rparr>, None)
                           | Some (e, r4) \<Rightarrow>
                               let m = real (digits_value ip)
                                         + real (digits_value fp) / 10 ^ length fp;
                                   v = (if e < 0 then m / 10 ^ nat (- e) else m * 10 ^ nat e)
                               in (s1\<lparr>buf := r4, eofbit := (r4 = [])\<rparr>,
                                   Some (if neg then - v else v)))))
          else (s1, None))"

text \<open>
  \<^verbatim>\<open>std::istringstream iss(line); iss >> n >> x >> y >> z\<close>, as used for the line of the
  atom count and origin and for each axis line: \<open>None\<close> when the stream has failed after
  the four extractions.
\<close>

definition read_int_3doubles :: "string \<Rightarrow> (int \<times> real \<times> real \<times> real) option" where
  "read_int_3doubles line =
     (case read_int (open_stream line) of
        (s1, n) \<Rightarrow>
          (case read_double s1 of
             (s2, x) \<Rightarrow>
               (case read_double s2 of
                  (s3, y) \<Rightarrow>
                    (case read_double s3 of
                       (s4, z) \<Rightarrow>
                         (case n of None \<Rightarrow> None | Some n' \<Rightarrow>
                          case x of None \<Rightarrow> None | Some x' \<Rightarrow>
                          case y of None \<Rightarrow> None | Some y' \<Rightarrow>
                          case z of None \<Rightarrow> None | Some z' \<Rightarrow> Some (n', x', y', z'))))))"

text \<open>One turn of the loop over the three axis lines.\<close>

definition read_axis ::
  "nat \<Rightarrow> istream \<Rightarrow> string \<Rightarrow> error + (istream \<times> string \<times> int \<times> axis_row)" where
  "read_axis i infile line =
     (case getline infile line of
        (infile', line') \<Rightarrow>
          (case read_int_3doubles line' of
             None \<Rightarrow> Inl (ParseError_Axis i)
           | Some (n, x, y, z) \<Rightarrow> Inr (infile', line', n, (real_of_int n, x, y, z))))"

text \<open>\<^verbatim>\<open>for (int i = 0; i < numAtoms; ++i) std::getline(infile, line);\<close>\<close>

fun skip_lines :: "nat \<Rightarrow> istream \<Rightarrow> string \<Rightarrow> istream \<times> string" where
  "skip_lines 0 infile line = (infile, line)"
| "skip_lines (Suc n) infile line =
     (case getline infile line of (infile', line') \<Rightarrow> skip_lines n infile' line')"

text \<open>\<^verbatim>\<open>while (infile >> val) cube.values.push_back(val);\<close>\<close>

function read_values :: "istream \<Rightarrow> real list \<Rightarrow> istream \<times> real list" where
  "read_values infile vals =
     (case read_double infile of
        (infile', None) \<Rightarrow> (infile', vals)
      | (infile', Some val) \<Rightarrow> read_values infile' (vals @ [val]))"
  by pat_completeness auto

lemma read_sign_length: "read_sign cs = (neg, rest) \<Longrightarrow> length rest \<le> length cs"
  by (auto simp: read_sign_def split: list.splits if_splits)

lemma read_fraction_length:
  "read_fraction cs = (fp, rest) \<Longrightarrow> length rest \<le> length cs \<and> (fp \<noteq> [] \<longrightarrow> length rest < length cs)"
proof (cases cs)
  case Nil
  then show "read_fraction cs = (fp, rest) \<Longrightarrow> ?thesis" by (auto simp: read_fraction_def)
next
  case (Cons c cs')
  have "length (dropWhile isdigit cs') \<le> length cs'" by (rule length_dropWhile_le)
  with Cons show "read_fraction cs = (fp, rest) \<Longrightarrow> ?thesis"
    by (auto simp: read_fraction_def split: if_splits)
qed

lemma read_exponent_length: "read_exponent cs = Some (e, rest) \<Longrightarrow> length rest \<le> length cs"
proof (cases cs)
  case Nil
  then show "read_exponent cs = Some (e, rest) \<Longrightarrow> ?thesis" by (auto simp: read_exponent_def)
next
  case (Cons c cs')
  assume a: "read_exponent cs = Some (e, rest)"
  show ?thesis
  proof (cases "c = CHR ''e'' \<or> c = CHR ''E''")
    case False
    with a Cons show ?thesis by (auto simp: read_exponent_def)
  next
    case True
    obtain neg r1 where s: "read_sign cs' = (neg, r1)" by (cases "read_sign cs'")
    with a Cons True have "rest = dropWhile isdigit r1"
      by (auto simp: read_exponent_def Let_def split: if_splits)
    moreover have "length (dropWhile isdigit r1) \<le> length r1" by (rule length_dropWhile_le)
    moreover have "length r1 \<le> length cs'" using s by (rule read_sign_length)
    ultimately show ?thesis using Cons by simp
  qed
qed

lemma sentry_length: "sentry s = (s1, ok) \<Longrightarrow> length (buf s1) \<le> length (buf s)"
  using length_dropWhile_le [of isspace "buf s"]
  by (auto simp: sentry_def Let_def split: if_splits)

lemma dropWhile_shorter: "takeWhile P xs \<noteq> [] \<Longrightarrow> length (dropWhile P xs) < length xs"
  by (cases xs) (auto simp: le_imp_less_Suc length_dropWhile_le split: if_splits)

lemma read_double_consumes:
  assumes "read_double s = (s', Some v)"
  shows "length (buf s') < length (buf s)"
proof -
  obtain s1 ok where se: "sentry s = (s1, ok)" by (cases "sentry s")
  obtain neg r1 where sg: "read_sign (buf s1) = (neg, r1)" by (cases "read_sign (buf s1)")
  obtain fp r3 where fr: "read_fraction (dropWhile isdigit r1) = (fp, r3)"
    by (cases "read_fraction (dropWhile isdigit r1)")
  from assms se sg fr have digits: "takeWhile isdigit r1 \<noteq> [] \<or> fp \<noteq> []"
    by (auto simp: read_double_def Let_def split: if_splits option.splits)
  from assms se sg fr obtain e r4 where ex: "read_exponent r3 = Some (e, r4)" and s': "buf s' = r4"
    by (auto simp: read_double_def Let_def split: if_splits option.splits)
  have 1: "length (buf s1) \<le> length (buf s)" using se by (rule sentry_length)
  have 2: "length r1 \<le> length (buf s1)" using sg by (rule read_sign_length)
  have 3: "length (dropWhile isdigit r1) \<le> length r1" by (rule length_dropWhile_le)
  have 4: "length r3 \<le> length (dropWhile isdigit r1)" using read_fraction_length [OF fr] by simp
  have 5: "length r4 \<le> length r3" using ex by (rule read_exponent_length)
  have "length r3 < length r1"
  proof (cases "fp = []")
    case True
    with digits have "length (dropWhile isdigit r1) < length r1" by (simp add: dropWhile_shorter)
    with 4 show ?thesis by simp
  next
    case False
    then have "length r3 < length (dropWhile isdigit r1)" using read_fraction_length [OF fr] by simp
    with 3 show ?thesis by simp
  qed
  with 1 2 5 s' show ?thesis by simp
qed

termination read_values
proof (relation "measure (\<lambda>(infile, vals). length (buf infile))", goal_cases)
  case 1
  show ?case by simp
next
  case (2 infile vals infile' y val)
  then have "read_double infile = (infile', Some val)" by simp
  then have "length (buf infile') < length (buf infile)" by (rule read_double_consumes)
  then show ?case by simp
qed

subsection \<open>\<^verbatim>\<open>readCubeFile\<close>\<close>

declare read_values.simps [simp del]

text \<open>
  \<^verbatim>\<open>vector::max_size()\<close> for \<^verbatim>\<open>double\<close> elements on a 64-bit target (libstdc++):
  \<^verbatim>\<open>reserve(n)\<close> throws \<^verbatim>\<open>std::length_error\<close> for a larger \<open>n\<close>. A failed allocation
  (\<^verbatim>\<open>std::bad_alloc\<close>) is outside the model.
\<close>

definition vector_max_size :: nat where
  "vector_max_size = 2 ^ 60 - 1"

text \<open>The two classifications of the comment lines in \<^verbatim>\<open>readCubeFile\<close>.\<close>

definition detect_calcType :: "string \<Rightarrow> string \<Rightarrow> string" where
  "detect_calcType c1 c2 =
     (if icontains c1 ''ORCA'' \<or> icontains c2 ''ORCA'' then ''ORCA''
      else if icontains c1 ''Q-Chem'' \<or> icontains c2 ''Q-Chem'' then ''Q-Chem''
      else ''Generic'')"

definition detect_isOrbital :: "string \<Rightarrow> string \<Rightarrow> bool" where
  "detect_isOrbital c1 c2 =
     (if icontains c1 ''MO'' \<or> icontains c2 ''MO''
         \<or> icontains c1 ''Orbital'' \<or> icontains c2 ''Orbital'' then True
      else if icontains c1 ''density'' \<or> icontains c2 ''density'' then False
      else True)"

text \<open>
  \<^verbatim>\<open>readCubeFile\<close>. The file system is a partial map from file names to contents; a
  name it does not hold is a file that cannot be opened. \<^verbatim>\<open>totalPoints\<close> is the
  product of the three dimensions after \<^verbatim>\<open>static_cast<size_t>\<close>, in 64-bit unsigned
  arithmetic. \<^verbatim>\<open>std::abs\<close> of the least \<^verbatim>\<open>int\<close> is undefined in C++; the model takes the
  absolute value of the integer.
\<close>

definition readCubeFile :: "(string \<Rightarrow> string option) \<Rightarrow> string \<Rightarrow> error + CubeData" where
  "readCubeFile fs filename =
     (case fs filename of
        None \<Rightarrow> Inl IOError
      | Some contents \<Rightarrow>
     (case getline (open_stream contents) [] of (infile1, line1) \<Rightarrow>
     (case getline infile1 line1 of (infile2, line2) \<Rightarrow>
     (case getline infile2 line2 of (infile3, line3) \<Rightarrow>
     (case read_int_3doubles line3 of
        None \<Rightarrow> Inl ParseError_AtomsOrigin
      | Some (na, ox, oy, oz) \<Rightarrow>
     (case read_axis 0 infile3 line3 of Inl e \<Rightarrow> Inl e | Inr (infile4, line4, d0, a0) \<Rightarrow>
     (case read_axis 1 infile4 line4 of Inl e \<Rightarrow> Inl e | Inr (infile5, line5, d1, a1) \<Rightarrow>
     (case read_axis 2 infile5 line5 of Inl e \<Rightarrow> Inl e | Inr (infile6, line6, d2, a2) \<Rightarrow>
     (case skip_lines (nat \<bar>na\<bar>) infile6 line6 of (infile7, line7) \<Rightarrow>
     (case (if detect_calcType (trim line1) (trim line2) = ''ORCA''
            then getline infile7 line7 else (infile7, line7)) of
        (infile8, line8) \<Rightarrow>
        let totalPoints = unat (word_of_int d0 * word_of_int d1 * word_of_int d2 :: 64 word)
        in
          if totalPoints > vector_max_size then Inl LengthError
          else
            (case read_values infile8 [] of
               (infile9, vals) \<Rightarrow>
                 if length vals \<noteq> totalPoints
                 then Inl (CountMismatchError (length vals) totalPoints)
                 else
                   Inr \<lparr>header =
                          \<lparr>comment1 = trim line1, comment2 = trim line2, numAtoms = na,
                           origin = (ox, oy, oz), dims = (d0, d1, d2),
                           axisVectors = (a0, a1, a2),
                           calcType = detect_calcType (trim line1) (trim line2),
                           isOrbital = detect_isOrbital (trim line1) (trim line2)\<rparr>,
                        values = vals\<rparr>)))))))))))"

section \<open>Auxiliary notions for the statements and proofs\<close>

text \<open>
  These definitions are not functions of the source. \<open>overflow_cube\<close> and \<open>short_cube\<close>
  are the contents of two cube files. \<open>encloses\<close> is the test of the
  enclosed sum in \<^verbatim>\<open>computePercentageFromIsovalue_Density\<close>; \<open>negate_point\<close> negates the
  raw value of a point and keeps its density.
  \<open>contains_ci\<close> and \<open>euclidean_norm\<close> follow the words of the specification of
  \<^verbatim>\<open>detectAngstrom\<close>: a comment contains a word case-insensitively when the lower-cased
  word is a contiguous part of the lower-cased comment, and the norm of an axis row is
  taken over its three direction components.
\<close>

definition encloses :: "real \<Rightarrow> bool \<Rightarrow> real \<Rightarrow> bool" where
  "encloses isovalue positive v = (if positive then v \<ge> isovalue else v \<le> isovalue)"

definition negate_point :: "OrbitalPoint \<Rightarrow> OrbitalPoint" where
  "negate_point p = p\<lparr>value := - value p\<rparr>"

definition contains_ci :: "string \<Rightarrow> string \<Rightarrow> bool" where
  "contains_ci data sub = (\<exists>pre post. map tolower data = pre @ map tolower sub @ post)"

definition euclidean_norm :: "axis_row \<Rightarrow> real" where
  "euclidean_norm row = (case row of (n, x, y, z) \<Rightarrow> sqrt (x\<^sup>2 + y\<^sup>2 + z\<^sup>2))"

definition overflow_cube :: string where
  "overflow_cube =
     ''density\<newline>empty grid\<newline>0 0 0 0\<newline>4194304 1 0 0\<newline>2097152 0 1 0\<newline>2097152 0 0 1\<newline>''"

definition short_cube :: string where
  "short_cube =
     ''density\<newline>short grid\<newline>0 0 0 0\<newline>2 1 0 0\<newline>1 0 1 0\<newline>2 0 0 1\<newline>0.5 -1e-1 2.\<newline>''"

section \<open>Lemmas about the loops, the sort and the search\<close>

lemma sum_loop_eq: "sum_loop acc xs = acc + sum_list xs"
  by (induction xs arbitrary: acc) auto

lemma density_sum_loop_eq: "density_sum_loop acc ps = acc + sum_list (map density ps)"
  by (induction ps arbitrary: acc) auto

lemma sign_filter_eq:
  "sign_filter positive xs = filter (\<lambda>v. if positive then 0 < v else v < 0) xs"
  by (induction xs) auto

lemma mset_sort_insert: "mset (sort_insert lt x ys) = add_mset x (mset ys)"
  by (induction ys) auto

lemma mset_std_sort: "mset (std_sort lt xs) = mset xs"
  by (induction xs) (auto simp: mset_sort_insert)

lemma set_std_sort: "set (std_sort lt xs) = set xs"
  using mset_std_sort [of lt xs] by (metis set_mset_mset)

lemma std_sort_Nil_iff: "std_sort lt xs = [] \<longleftrightarrow> xs = []"
  using set_std_sort [of lt xs] by (metis set_empty)

lemma sorted_sort_insert_desc:
  "sorted_wrt (\<lambda>a b. a \<ge> b) ys \<Longrightarrow> sorted_wrt (\<lambda>a b. a \<ge> b) (sort_insert (\<lambda>a b. a > b) (x::real) ys)"
  by (induction ys) (auto simp: set_mset_mset [symmetric] mset_sort_insert simp del: set_mset_mset)

lemma sorted_std_sort_desc:
  "sorted_wrt (\<lambda>a b. a \<ge> b) (std_sort (\<lambda>a b. a > b) (xs::real list))"
  by (induction xs) (auto simp: sorted_sort_insert_desc)

lemma sort_insert_uminus:
  "sort_insert (\<lambda>a b. a < b) (- x) (map uminus ys) = map uminus (sort_insert (\<lambda>a b. a > b) (x::real) ys)"
  by (induction ys) auto

lemma std_sort_uminus:
  "std_sort (\<lambda>a b. a < b) (map uminus xs) = map uminus (std_sort (\<lambda>a b. a > b) (xs::real list))"
  by (induction xs) (auto simp: sort_insert_uminus)

lemma sign_filter_uminus:
  "sign_filter False (map uminus xs) = map uminus (sign_filter True xs)"
  by (induction xs) auto

lemma accumulate_le_uminus:
  "accumulate_le (- t) (- i) (map uminus xs) = map_option uminus (accumulate_ge t i xs)"
proof (induction xs arbitrary: i)
  case Nil
  show ?case by simp
next
  case (Cons v vs)
  have "accumulate_le (- t) (- (i + v)) (map uminus vs) = map_option uminus (accumulate_ge t (i + v) vs)"
    by (rule Cons.IH)
  then show ?case by simp
qed

lemma sum_list_uminus: "sum_list (map uminus xs) = - sum_list (xs::real list)"
  by (induction xs) auto

lemma iso_density_mirror:
  "computeIsovalueFromPercentage_Density (map uminus vals) percent False =
     (case computeIsovalueFromPercentage_Density vals percent True of
        Inl e \<Rightarrow> Inl e | Inr r \<Rightarrow> Inr (- r))"
proof (cases "sign_filter True vals = []")
  case True
  then show ?thesis
    by (simp add: computeIsovalueFromPercentage_Density_def sign_filter_uminus)
next
  case False
  let ?f = "sign_filter True vals"
  let ?s = "std_sort (\<lambda>a b. a > b) ?f"
  let ?t = "percent * sum_loop 0 ?f / 100"
  have s_ne: "?s \<noteq> []" using False by (simp add: std_sort_Nil_iff)
  have tgt: "percent * sum_loop 0 (map uminus ?f) / 100 = - ?t"
    by (simp add: sum_loop_eq sum_list_uminus)
  have acc: "accumulate_le (- ?t) 0 (map uminus ?s) = map_option uminus (accumulate_ge ?t 0 ?s)"
    using accumulate_le_uminus [of ?t 0 ?s] by simp
  have lst: "last (map uminus ?s) = - last ?s"
    using s_ne by (simp add: last_map)
  show ?thesis
    using False
    by (simp add: computeIsovalueFromPercentage_Density_def sign_filter_uminus
        std_sort_uminus tgt acc lst Let_def split: option.splits)
qed

lemma density_loop_eq:
  "density_loop isovalue positive (t, i) vs =
     (t + sum_list (sign_filter positive vs),
      i + sum_list (filter (encloses isovalue positive) (sign_filter positive vs)))"
  by (induction vs arbitrary: t i) (auto simp: encloses_def)

lemma orbital_loop_eq:
  "orbital_loop th (t, i) vs =
     (t + sum_list (map (\<lambda>v. v * v) vs),
      i + sum_list (filter (\<lambda>d. d \<ge> th) (map (\<lambda>v. v * v) vs)))"
  by (induction vs arbitrary: t i) auto

lemma sign_filter_pos: "v \<in> set (sign_filter True vs) \<Longrightarrow> 0 < v"
  by (simp add: sign_filter_eq)

lemma sign_filter_neg: "v \<in> set (sign_filter False vs) \<Longrightarrow> v < 0"
  by (simp add: sign_filter_eq)

lemma sum_list_filter_le:
  "(\<And>x. x \<in> set xs \<Longrightarrow> 0 \<le> (x::real)) \<Longrightarrow> sum_list (filter P xs) \<le> sum_list xs"
  by (induction xs) (auto simp: add_increasing)

lemma sum_list_filter_nonneg:
  "(\<And>x. x \<in> set xs \<Longrightarrow> 0 \<le> (x::real)) \<Longrightarrow> 0 \<le> sum_list (filter P xs)"
  by (induction xs) auto

lemma sum_list_pos_real:
  "xs \<noteq> [] \<Longrightarrow> (\<And>x. x \<in> set xs \<Longrightarrow> 0 < (x::real)) \<Longrightarrow> 0 < sum_list xs"
  by (induction xs) (auto simp: add_pos_nonneg sum_list_nonneg less_imp_le)

lemma sum_list_filter_ge_neg:
  "(\<And>x. x \<in> set xs \<Longrightarrow> (x::real) \<le> 0) \<Longrightarrow> sum_list xs \<le> sum_list (filter P xs)"
proof (induction xs)
  case Nil
  show ?case by simp
next
  case (Cons a xs)
  then have "sum_list xs \<le> sum_list (filter P xs)" and "a \<le> 0" by auto
  then show ?case by auto
qed

lemma sum_list_filter_nonpos:
  "(\<And>x. x \<in> set xs \<Longrightarrow> (x::real) \<le> 0) \<Longrightarrow> sum_list (filter P xs) \<le> 0"
  by (induction xs) (auto simp: add_nonpos_nonpos)

lemma pct_range:
  fixes integ tot :: real
  assumes "tot \<noteq> 0" "(0 \<le> integ \<and> integ \<le> tot) \<or> (tot \<le> integ \<and> integ \<le> 0)"
  shows "0 \<le> integ / tot * 100 \<and> integ / tot * 100 \<le> 100"
proof -
  define x where "x = integ / tot"
  have "0 \<le> x \<and> x \<le> 1"
    using assms unfolding x_def by (auto simp: divide_simps zero_le_divide_iff)
  then have "0 \<le> x * 100 \<and> x * 100 \<le> 100" by simp
  then show ?thesis unfolding x_def .
qed

lemma pct_density_range:
  assumes "computePercentageFromIsovalue_Density vals isovalue positive = Inr q"
  shows "0 \<le> q \<and> q \<le> 100"
proof -
  let ?f = "sign_filter positive vals"
  let ?P = "encloses isovalue positive"
  have ne: "sum_list ?f \<noteq> 0" and q: "q = sum_list (filter ?P ?f) / sum_list ?f * 100"
    using assms by (auto simp: computePercentageFromIsovalue_Density_def density_loop_eq split: if_splits)
  have "(0 \<le> sum_list (filter ?P ?f) \<and> sum_list (filter ?P ?f) \<le> sum_list ?f)
        \<or> (sum_list ?f \<le> sum_list (filter ?P ?f) \<and> sum_list (filter ?P ?f) \<le> 0)"
  proof (cases positive)
    case True
    then have "\<And>x. x \<in> set ?f \<Longrightarrow> 0 \<le> x" using sign_filter_pos by fastforce
    then show ?thesis using sum_list_filter_le sum_list_filter_nonneg by blast
  next
    case False
    then have "\<And>x. x \<in> set ?f \<Longrightarrow> x \<le> 0" using sign_filter_neg by fastforce
    then show ?thesis using sum_list_filter_ge_neg sum_list_filter_nonpos by blast
  qed
  then show ?thesis unfolding q using ne by (rule pct_range [rotated])
qed

lemma pct_orbital_range:
  assumes "computePercentageFromIsovalue_Orbital vals isovalue positive = Inr q"
  shows "0 \<le> q \<and> q \<le> 100"
proof -
  let ?d = "map (\<lambda>v. v * v) vals"
  let ?P = "\<lambda>d. d \<ge> isovalue * isovalue"
  have ne: "sum_list ?d \<noteq> 0" and q: "q = sum_list (filter ?P ?d) / sum_list ?d * 100"
    using assms by (auto simp: computePercentageFromIsovalue_Orbital_def orbital_loop_eq split: if_splits)
  have "\<And>x. x \<in> set ?d \<Longrightarrow> 0 \<le> x" by auto
  then have "0 \<le> sum_list (filter ?P ?d) \<and> sum_list (filter ?P ?d) \<le> sum_list ?d"
    using sum_list_filter_le sum_list_filter_nonneg by blast
  then show ?thesis unfolding q using ne pct_range by blast
qed

lemma pct_density_error:
  "computePercentageFromIsovalue_Density vals isovalue positive = Inl e \<Longrightarrow> e = ZeroTotalError"
  by (auto simp: computePercentageFromIsovalue_Density_def split: prod.splits if_splits)

lemma pct_orbital_error:
  "computePercentageFromIsovalue_Orbital vals isovalue positive = Inl e \<Longrightarrow> e = ZeroTotalError"
  by (auto simp: computePercentageFromIsovalue_Orbital_def Let_def split: prod.splits if_splits)

lemma all_zero_sign_filter: "(\<forall>v \<in> set vals. v = 0) \<Longrightarrow> sign_filter positive vals = []"
  by (induction "vals") auto

lemma all_zero_squares: "(\<forall>v \<in> set vals. v = 0) \<Longrightarrow> sum_list (map (\<lambda>v. v * v) vals) = (0::real)"
  by (induction "vals") auto

lemma make_points_uminus:
  "make_points i (map uminus vs) = map negate_point (make_points i vs)"
  by (induction vs arbitrary: i) (auto simp: negate_point_def)

lemma sort_insert_negate:
  "sort_insert (\<lambda>a b. density a > density b) (negate_point p) (map negate_point ps)
     = map negate_point (sort_insert (\<lambda>a b. density a > density b) p ps)"
  by (induction ps) (auto simp: negate_point_def)

lemma std_sort_negate:
  "std_sort (\<lambda>a b. density a > density b) (map negate_point ps)
     = map negate_point (std_sort (\<lambda>a b. density a > density b) ps)"
  by (induction ps) (auto simp: sort_insert_negate)

lemma density_sum_loop_negate:
  "density_sum_loop t (map negate_point ps) = density_sum_loop t ps"
  by (induction ps arbitrary: t) (auto simp: negate_point_def)

lemma accumulate_points_negate:
  "accumulate_points t i (map negate_point ps) = map_option uminus (accumulate_points t i ps)"
  by (induction ps arbitrary: i) (auto simp: negate_point_def)

lemma make_points_Nil_iff: "make_points i vs = [] \<longleftrightarrow> vs = []"
  by (cases vs) auto

lemma iso_orbital_negate:
  "computeIsovalueFromPercentage_Orbital (map uminus vals) percent positive =
     (case computeIsovalueFromPercentage_Orbital vals percent positive of
        Inl e \<Rightarrow> Inl e | Inr r \<Rightarrow> Inr (- r))"
proof (cases "vals = []")
  case True
  then show ?thesis by (simp add: computeIsovalueFromPercentage_Orbital_def)
next
  case False
  let ?s = "std_sort (\<lambda>a b. density a > density b) (make_points 0 vals)"
  have "?s \<noteq> []" using False by (simp add: std_sort_Nil_iff make_points_Nil_iff)
  then have lst: "value (last (map negate_point ?s)) = - value (last ?s)"
    by (simp add: last_map negate_point_def)
  show ?thesis
    using False
    by (simp add: computeIsovalueFromPercentage_Orbital_def make_points_uminus
        make_points_Nil_iff std_sort_negate density_sum_loop_negate accumulate_points_negate
        lst Let_def split: option.splits)
qed

lemma iso_orbital_succeeds:
  "vals \<noteq> [] \<Longrightarrow> \<exists>r. computeIsovalueFromPercentage_Orbital vals percent positive = Inr r"
  by (simp add: computeIsovalueFromPercentage_Orbital_def make_points_Nil_iff Let_def
      split: option.splits)

lemma orbital_loop_uminus:
  "orbital_loop th (t, i) (map uminus vs) = orbital_loop th (t, i) vs"
  by (induction vs arbitrary: t i) auto

lemma pct_orbital_negate:
  "computePercentageFromIsovalue_Orbital (map uminus vals) isovalue positive
     = computePercentageFromIsovalue_Orbital vals isovalue positive"
  by (simp add: computePercentageFromIsovalue_Orbital_def orbital_loop_uminus)

lemma accumulate_ge_Some:
  "accumulate_ge t i xs = Some r \<Longrightarrow> \<exists>pre post. xs = pre @ r # post \<and> t \<le> i + sum_list pre + r"
proof (induction xs arbitrary: i)
  case Nil
  then show ?case by simp
next
  case (Cons v vs)
  show ?case
  proof (cases "t \<le> i + v")
    case True
    with Cons.prems have "r = v" by simp
    with True have "v # vs = [] @ r # vs \<and> t \<le> i + sum_list [] + r" by simp
    then show ?thesis by blast
  next
    case False
    with Cons.prems have "accumulate_ge t (i + v) vs = Some r" by simp
    from Cons.IH [OF this] obtain pre post
      where "vs = pre @ r # post" "t \<le> i + v + sum_list pre + r" by blast
    then have "v # vs = (v # pre) @ r # post \<and> t \<le> i + sum_list (v # pre) + r"
      by (simp add: add.assoc)
    then show ?thesis by blast
  qed
qed

lemma accumulate_ge_None:
  "accumulate_ge t i xs = None \<Longrightarrow> xs \<noteq> [] \<Longrightarrow> i + sum_list xs < t"
proof (induction xs arbitrary: i)
  case Nil
  then show ?case by simp
next
  case (Cons v vs)
  from Cons.prems have lt: "i + v < t" and rest: "accumulate_ge t (i + v) vs = None"
    by (auto split: if_splits)
  show ?case
  proof (cases "vs = []")
    case True
    with lt show ?thesis by simp
  next
    case False
    from Cons.IH [OF rest False] show ?thesis by (simp add: add.assoc)
  qed
qed

lemma sum_list_filter_mset:
  "mset xs = mset ys \<Longrightarrow> sum_list (filter P xs) = sum_list (filter P (ys::real list))"
proof -
  assume "mset xs = mset ys"
  then have "mset (filter P xs) = mset (filter P ys)" by simp
  then have "sum_mset (mset (filter P xs)) = sum_mset (mset (filter P ys))" by simp
  then show ?thesis by (simp only: sum_mset_sum_list)
qed

lemma sum_list_mset_eq:
  "mset xs = mset ys \<Longrightarrow> sum_list xs = sum_list (ys::real list)"
  using sum_list_filter_mset [of xs ys "\<lambda>_. True"] by simp

lemma sorted_desc_last:
  "sorted_wrt (\<lambda>a b. a \<ge> b) xs \<Longrightarrow> x \<in> set xs \<Longrightarrow> last xs \<le> (x::real)"
  by (induction xs) (auto split: if_splits)

lemma filter_all: "(\<And>x. x \<in> set xs \<Longrightarrow> P x) \<Longrightarrow> filter P xs = xs"
  by (induction xs) auto

lemma enclosed_ge_prefix:
  fixes r :: real
  assumes sorted: "sorted_wrt (\<lambda>a b. a \<ge> b) (pre @ r # post)"
    and pos: "\<And>x. x \<in> set post \<Longrightarrow> 0 \<le> x"
  shows "sum_list pre + r \<le> sum_list (filter (\<lambda>v. v \<ge> r) (pre @ r # post))"
proof -
  have "\<And>x. x \<in> set pre \<Longrightarrow> r \<le> x"
    using sorted by (auto simp: sorted_wrt_append)
  then have "filter (\<lambda>v. v \<ge> r) pre = pre" by (rule filter_all)
  moreover have "0 \<le> sum_list (filter (\<lambda>v. v \<ge> r) post)"
    using pos by (rule sum_list_filter_nonneg)
  ultimately show ?thesis by simp
qed

lemma consistency_positive:
  assumes iso: "computeIsovalueFromPercentage_Density vals percent True = Inr r"
  shows "\<exists>q. computePercentageFromIsovalue_Density vals r True = Inr q
             \<and> (percent \<le> 100 \<longrightarrow> percent \<le> q)
             \<and> (100 \<le> percent \<longrightarrow> q = 100)"
proof -
  let ?f = "sign_filter True vals"
  let ?s = "std_sort (\<lambda>a b. a > b) ?f"
  let ?T = "sum_list ?f"
  let ?E = "sum_list (filter (encloses r True) ?f)"
  let ?t = "percent / 100 * ?T"
  have ne: "?f \<noteq> []"
    using iso by (auto simp: computeIsovalueFromPercentage_Density_def split: if_splits)
  have s_ne: "?s \<noteq> []" using ne by (simp add: std_sort_Nil_iff)
  have pos: "\<And>x. x \<in> set ?f \<Longrightarrow> 0 < x" by (rule sign_filter_pos)
  have Tpos: "0 < ?T" using ne pos by (rule sum_list_pos_real)
  have nonneg: "\<And>x. x \<in> set ?f \<Longrightarrow> 0 \<le> x" using pos by fastforce
  have E_le: "?E \<le> ?T" using nonneg by (rule sum_list_filter_le)
  have enc: "encloses r True = (\<lambda>v. v \<ge> r)" by (auto simp: encloses_def)
  have E_sorted: "?E = sum_list (filter (\<lambda>v. v \<ge> r) ?s)"
    unfolding enc by (rule sum_list_filter_mset) (simp add: mset_std_sort)
  have T_sorted: "?T = sum_list ?s"
    by (rule sum_list_mset_eq) (simp add: mset_std_sort)
  have sorted: "sorted_wrt (\<lambda>a b. a \<ge> b) ?s" by (rule sorted_std_sort_desc)
  have res: "(case accumulate_ge ?t 0 ?s of Some v \<Rightarrow> v | None \<Rightarrow> last ?s) = r"
    using iso ne
    by (auto simp: computeIsovalueFromPercentage_Density_def Let_def sum_loop_eq
        split: option.splits)
  have q: "computePercentageFromIsovalue_Density vals r True = Inr (?E / ?T * 100)"
    using Tpos by (simp add: computePercentageFromIsovalue_Density_def density_loop_eq)
  have key: "(?t \<le> ?E) \<or> (?T < ?t \<and> ?E = ?T)"
  proof (cases "accumulate_ge ?t 0 ?s")
    case None
    with res have r: "r = last ?s" by simp
    from accumulate_ge_None [OF None s_ne] have "?T < ?t" using T_sorted by simp
    moreover have "filter (\<lambda>v. v \<ge> r) ?s = ?s"
      using sorted_desc_last [OF sorted] unfolding r by (intro filter_all) simp
    then have "?E = ?T" using E_sorted T_sorted by simp
    ultimately show ?thesis by simp
  next
    case (Some v)
    with res have "accumulate_ge ?t 0 ?s = Some r" by simp
    from accumulate_ge_Some [OF this] obtain pre post
      where split: "?s = pre @ r # post" and cross: "?t \<le> sum_list pre + r" by auto
    have "\<And>x. x \<in> set post \<Longrightarrow> 0 \<le> x"
    proof -
      fix x assume "x \<in> set post"
      then have "x \<in> set ?s" unfolding split by simp
      then have "x \<in> set ?f" by (simp add: set_std_sort)
      then show "0 \<le> x" by (rule nonneg)
    qed
    with sorted have "sum_list pre + r \<le> sum_list (filter (\<lambda>v. v \<ge> r) (pre @ r # post))"
      unfolding split by (rule enclosed_ge_prefix)
    then have "sum_list pre + r \<le> ?E" using E_sorted split by simp
    with cross show ?thesis by simp
  qed
  define x where "x = ?E / ?T"
  have x1: "x \<le> 1" using E_le Tpos by (simp add: x_def)
  have xk: "percent / 100 \<le> x \<or> (1 < percent / 100 \<and> x = 1)"
    using key Tpos by (auto simp: x_def field_simps)
  have "(percent \<le> 100 \<longrightarrow> percent \<le> x * 100) \<and> (100 \<le> percent \<longrightarrow> x * 100 = 100)"
    using x1 xk by auto
  then show ?thesis using q unfolding x_def by simp
qed

lemma density_loop_uminus:
  "density_loop (- isovalue) False (- t, - i) (map uminus vs) =
     (case density_loop isovalue True (t, i) vs of (a, b) \<Rightarrow> (- a, - b))"
proof (induction vs arbitrary: t i)
  case Nil
  show ?case by simp
next
  case (Cons v vs)
  have a: "density_loop (- isovalue) False (- (t + v), - (i + v)) (map uminus vs) =
     (case density_loop isovalue True (t + v, i + v) vs of (a, b) \<Rightarrow> (- a, - b))"
    by (rule Cons.IH)
  have b: "density_loop (- isovalue) False (- (t + v), - i) (map uminus vs) =
     (case density_loop isovalue True (t + v, i) vs of (a, b) \<Rightarrow> (- a, - b))"
    by (rule Cons.IH)
  have c: "density_loop (- isovalue) False (- t, - i) (map uminus vs) =
     (case density_loop isovalue True (t, i) vs of (a, b) \<Rightarrow> (- a, - b))"
    by (rule Cons.IH)
  show ?case using a b c by simp
qed

lemma pct_density_mirror:
  "computePercentageFromIsovalue_Density (map uminus vals) (- isovalue) False =
     computePercentageFromIsovalue_Density vals isovalue True"
  using density_loop_uminus [of isovalue 0 0 "vals"]
  by (simp add: computePercentageFromIsovalue_Density_def split: prod.splits)

lemma map_uminus_twice: "map uminus (map uminus vs) = (vs::real list)"
  by (simp add: o_def)

lemma consistency_negative:
  assumes iso: "computeIsovalueFromPercentage_Density vals percent False = Inr r"
  shows "\<exists>q. computePercentageFromIsovalue_Density vals r False = Inr q
             \<and> (percent \<le> 100 \<longrightarrow> percent \<le> q)
             \<and> (100 \<le> percent \<longrightarrow> q = 100)"
proof -
  let ?vs = "map uminus vals"
  have "computeIsovalueFromPercentage_Density (map uminus ?vs) percent False = Inr r"
    using iso by (simp only: map_uminus_twice)
  then have "(case computeIsovalueFromPercentage_Density ?vs percent True of
                 Inl e \<Rightarrow> Inl e | Inr r \<Rightarrow> Inr (- r)) = (Inr r :: error + real)"
    by (simp only: iso_density_mirror)
  then have "computeIsovalueFromPercentage_Density ?vs percent True = Inr (- r)"
    by (cases "computeIsovalueFromPercentage_Density ?vs percent True") auto
  from consistency_positive [OF this] obtain q
    where q: "computePercentageFromIsovalue_Density ?vs (- r) True = Inr q"
      and b: "(percent \<le> 100 \<longrightarrow> percent \<le> q) \<and> (100 \<le> percent \<longrightarrow> q = 100)"
    by blast
  have "computePercentageFromIsovalue_Density (map uminus ?vs) (- (- r)) False = Inr q"
    using q by (simp only: pct_density_mirror)
  then have "computePercentageFromIsovalue_Density vals r False = Inr q"
    by (simp only: map_uminus_twice minus_minus)
  with b show ?thesis by blast
qed

lemma match_at_prefix:
  "match_at (\<lambda>a b. f a = f b) ds ps \<longleftrightarrow> (\<exists>post. map f ds = map f ps @ post)"
  by (induction "\<lambda>a b. f a = f b" ds ps rule: match_at.induct) auto

lemma std_search_found:
  assumes "ps \<noteq> []"
  shows "std_search (\<lambda>a b. f a = f b) ds ps \<noteq> length ds
           \<longleftrightarrow> (\<exists>pre post. map f ds = pre @ map f ps @ post)"
proof (induction ds)
  case Nil
  show ?case using assms by simp
next
  case (Cons d ds)
  show ?case
  proof (cases "match_at (\<lambda>a b. f a = f b) (d # ds) ps")
    case True
    then obtain post where "map f (d # ds) = [] @ map f ps @ post"
      unfolding match_at_prefix by auto
    then have "\<exists>pre post. map f (d # ds) = pre @ map f ps @ post" by blast
    with True show ?thesis by simp
  next
    case False
    have "(\<exists>pre post. map f (d # ds) = pre @ map f ps @ post)
            \<longleftrightarrow> (\<exists>pre post. map f ds = pre @ map f ps @ post)"
    proof
      assume "\<exists>pre post. map f (d # ds) = pre @ map f ps @ post"
      then obtain pre post where eq: "map f (d # ds) = pre @ map f ps @ post" by blast
      show "\<exists>pre post. map f ds = pre @ map f ps @ post"
      proof (cases pre)
        case Nil
        with eq have "\<exists>post. map f (d # ds) = map f ps @ post" by auto
        with False show ?thesis unfolding match_at_prefix by simp
      next
        case (Cons x pre')
        with eq have "map f ds = pre' @ map f ps @ post" by simp
        then show ?thesis by blast
      qed
    next
      assume "\<exists>pre post. map f ds = pre @ map f ps @ post"
      then obtain pre post where "map f ds = pre @ map f ps @ post" by blast
      then have "map f (d # ds) = (f d # pre) @ map f ps @ post" by simp
      then show "\<exists>pre post. map f (d # ds) = pre @ map f ps @ post" by blast
    qed
    with False Cons.IH show ?thesis by simp
  qed
qed

lemma icontains_iff: "sub \<noteq> [] \<Longrightarrow> icontains data sub = contains_ci data sub"
  unfolding icontains_def contains_ci_def by (rule std_search_found)

lemma axis_length_loop_eq:
  "axis_length_loop t rows = t + sum_list (map euclidean_norm rows)"
  by (induction t rows rule: axis_length_loop.induct)
     (auto simp: euclidean_norm_def power2_eq_square)

lemmas extract_defs = read_int_3doubles_def read_int_def read_double_def sentry_def good_def
      open_stream_def read_sign_def read_fraction_def read_exponent_def isspace_def isdigit_def
      whitespace_def digits_value_def Let_def

lemmas string_defs = trim_def find_last_not_of_def std_substr_def whitespace_def
      icontains_def tolower_def

lemma overflow_cube_lines:
  "getline (open_stream overflow_cube) [] =
     (open_stream ''empty grid\<newline>0 0 0 0\<newline>4194304 1 0 0\<newline>2097152 0 1 0\<newline>2097152 0 0 1\<newline>'', ''density'')"
  "getline (open_stream ''empty grid\<newline>0 0 0 0\<newline>4194304 1 0 0\<newline>2097152 0 1 0\<newline>2097152 0 0 1\<newline>'') ''density'' =
     (open_stream ''0 0 0 0\<newline>4194304 1 0 0\<newline>2097152 0 1 0\<newline>2097152 0 0 1\<newline>'', ''empty grid'')"
  "getline (open_stream ''0 0 0 0\<newline>4194304 1 0 0\<newline>2097152 0 1 0\<newline>2097152 0 0 1\<newline>'') ''empty grid'' =
     (open_stream ''4194304 1 0 0\<newline>2097152 0 1 0\<newline>2097152 0 0 1\<newline>'', ''0 0 0 0'')"
  "getline (open_stream ''4194304 1 0 0\<newline>2097152 0 1 0\<newline>2097152 0 0 1\<newline>'') ''0 0 0 0'' =
     (open_stream ''2097152 0 1 0\<newline>2097152 0 0 1\<newline>'', ''4194304 1 0 0'')"
  "getline (open_stream ''2097152 0 1 0\<newline>2097152 0 0 1\<newline>'') ''4194304 1 0 0'' =
     (open_stream ''2097152 0 0 1\<newline>'', ''2097152 0 1 0'')"
  "getline (open_stream ''2097152 0 0 1\<newline>'') ''2097152 0 1 0'' =
     (open_stream [], ''2097152 0 0 1'')"
  by (simp_all add: getline_def open_stream_def good_def overflow_cube_def)

lemma overflow_cube_numbers:
  "read_int_3doubles ''0 0 0 0'' = Some (0, 0, 0, 0)"
  "read_int_3doubles ''4194304 1 0 0'' = Some (4194304, 1, 0, 0)"
  "read_int_3doubles ''2097152 0 1 0'' = Some (2097152, 0, 1, 0)"
  "read_int_3doubles ''2097152 0 0 1'' = Some (2097152, 0, 0, 1)"
  by (simp_all add: extract_defs)

lemma overflow_cube_comments:
  "trim ''density'' = ''density''"
  "trim ''empty grid'' = ''empty grid''"
  "detect_calcType ''density'' ''empty grid'' = ''Generic''"
  "detect_isOrbital ''density'' ''empty grid'' = False"
  by (simp_all add: string_defs detect_calcType_def detect_isOrbital_def)

lemma read_values_at_end: "read_values (open_stream []) vals =
    (\<lparr>buf = [], eofbit = True, failbit = True\<rparr>, vals)"
  by (subst read_values.simps) (simp add: extract_defs)

lemma readCubeFile_count:
  assumes "readCubeFile fs filename = Inr cube"
  shows "case dims (header cube) of (d0, d1, d2) \<Rightarrow>
           length (values cube) = unat (word_of_int d0 * word_of_int d1 * word_of_int d2 :: 64 word)"
  using assms unfolding readCubeFile_def Let_def
  by (auto split: option.splits prod.splits sum.splits if_splits)

lemma short_cube_lines:
  "getline (open_stream short_cube) [] =
     (open_stream ''short grid\<newline>0 0 0 0\<newline>2 1 0 0\<newline>1 0 1 0\<newline>2 0 0 1\<newline>0.5 -1e-1 2.\<newline>'', ''density'')"
  "getline (open_stream ''short grid\<newline>0 0 0 0\<newline>2 1 0 0\<newline>1 0 1 0\<newline>2 0 0 1\<newline>0.5 -1e-1 2.\<newline>'') ''density'' =
     (open_stream ''0 0 0 0\<newline>2 1 0 0\<newline>1 0 1 0\<newline>2 0 0 1\<newline>0.5 -1e-1 2.\<newline>'', ''short grid'')"
  "getline (open_stream ''0 0 0 0\<newline>2 1 0 0\<newline>1 0 1 0\<newline>2 0 0 1\<newline>0.5 -1e-1 2.\<newline>'') ''short grid'' =
     (open_stream ''2 1 0 0\<newline>1 0 1 0\<newline>2 0 0 1\<newline>0.5 -1e-1 2.\<newline>'', ''0 0 0 0'')"
  "getline (open_stream ''2 1 0 0\<newline>1 0 1 0\<newline>2 0 0 1\<newline>0.5 -1e-1 2.\<newline>'') ''0 0 0 0'' =
     (open_stream ''1 0 1 0\<newline>2 0 0 1\<newline>0.5 -1e-1 2.\<newline>'', ''2 1 0 0'')"
  "getline (open_stream ''1 0 1 0\<newline>2 0 0 1\<newline>0.5 -1e-1 2.\<newline>'') ''2 1 0 0'' =
     (open_stream ''2 0 0 1\<newline>0.5 -1e-1 2.\<newline>'', ''1 0 1 0'')"
  "getline (open_stream ''2 0 0 1\<newline>0.5 -1e-1 2.\<newline>'') ''1 0 1 0'' =
     (open_stream ''0.5 -1e-1 2.\<newline>'', ''2 0 0 1'')"
  by (simp_all add: getline_def open_stream_def good_def short_cube_def)

lemma short_cube_numbers:
  "read_int_3doubles ''2 1 0 0'' = Some (2, 1, 0, 0)"
  "read_int_3doubles ''1 0 1 0'' = Some (1, 0, 1, 0)"
  "read_int_3doubles ''2 0 0 1'' = Some (2, 0, 0, 1)"
  by (simp_all add: extract_defs)

lemma short_cube_comments:
  "trim ''short grid'' = ''short grid''"
  "detect_calcType ''density'' ''short grid'' = ''Generic''"
  by (simp_all add: string_defs detect_calcType_def)

lemma short_cube_values:
  "read_values (open_stream ''0.5 -1e-1 2.\<newline>'') [] =
     (\<lparr>buf = [], eofbit = True, failbit = True\<rparr>, [1 / 2, - (1 / 10), 2])"
proof -
  have 1: "read_double (open_stream ''0.5 -1e-1 2.\<newline>'') = (open_stream '' -1e-1 2.\<newline>'', Some (1 / 2))"
    by (simp add: extract_defs)
  have 2: "read_double (open_stream '' -1e-1 2.\<newline>'') = (open_stream '' 2.\<newline>'', Some (- (1 / 10)))"
    by (simp add: extract_defs)
  have 3: "read_double (open_stream '' 2.\<newline>'') = (open_stream ''\<newline>'', Some 2)"
    by (simp add: extract_defs)
  have 4: "read_double (open_stream ''\<newline>'') = (\<lparr>buf = [], eofbit = True, failbit = True\<rparr>, None)"
    by (simp add: extract_defs)
  show ?thesis
    by (subst read_values.simps, simp only: 1 2 3 4 prod.case option.case append.simps)+
qed

lemma short_cube_mismatch:
  "readCubeFile (\<lambda>f. if f = ''short.cube'' then Some short_cube else None) ''short.cube''
     = Inl (CountMismatchError 3 4)"
  by (simp add: readCubeFile_def read_axis_def short_cube_lines short_cube_numbers
      overflow_cube_numbers overflow_cube_comments short_cube_comments short_cube_values
      vector_max_size_def)

section \<open>The claims\<close>

subsection \<open>C1\<close>

text \<open>
  C1 (as amended). In exact arithmetic, that is with every \<^verbatim>\<open>double\<close> operation of the
  two functions taken as the operation on real numbers: whenever
  \<^verbatim>\<open>computeIsovalueFromPercentage_Density(values, percent, sign)\<close> returns an isovalue
  \<open>r\<close>, \<^verbatim>\<open>computePercentageFromIsovalue_Density(values, r, sign)\<close> returns a percentage \<open>q\<close> (it does not fail), and \<open>q\<close> is greater than or equal to \<open>percent\<close> when
  \<open>percent \<le> 100\<close>, and equal to 100 when \<open>percent \<ge> 100\<close>. The claim as written asks for
  \<open>q \<le> percent\<close>; the running sum is compared after the value is added, so the returned
  value is itself enclosed and the enclosed share reaches the target from above. The
  statement is about exact arithmetic only: in \<^verbatim>\<open>double\<close> arithmetic the target and the
  quotient are rounded, and the percentage can fall below \<open>percent\<close> by a rounding error.
\<close>

theorem C1_consistency_amended:
  assumes "computeIsovalueFromPercentage_Density vals percent positive = Inr r"
  shows "\<exists>q. computePercentageFromIsovalue_Density vals r positive = Inr q
             \<and> (percent \<le> 100 \<longrightarrow> percent \<le> q)
             \<and> (100 \<le> percent \<longrightarrow> q = 100)"
  using assms consistency_positive consistency_negative by (cases positive) auto

text \<open>
  The claim as written fails on the worked example of the specification: for \<open>[1,2,3,4]\<close> and
  50 percent the isovalue is 3, and the values at or above 3 hold 70 percent of the total.
\<close>

theorem C1_counterexample:
  "computeIsovalueFromPercentage_Density [1, 2, 3, 4] 50 True = Inr 3
   \<and> computePercentageFromIsovalue_Density [1, 2, 3, 4] 3 True = Inr 70
   \<and> \<not> (70 \<le> (50::real))"
  by (simp add: computeIsovalueFromPercentage_Density_def
      computePercentageFromIsovalue_Density_def)

text \<open>
  The amended statement at a negative-branch input: \<open>[-1,2,-3,-4]\<close>, 60 percent.
\<close>

theorem C1_consistency_amended_witness:
  "computeIsovalueFromPercentage_Density [-1, 2, -3, -4] 60 False = Inr (- 3)
   \<and> (\<exists>q. computePercentageFromIsovalue_Density [-1, 2, -3, -4] (- 3) False = Inr q
           \<and> 60 \<le> q)"
proof -
  have h: "computeIsovalueFromPercentage_Density [-1, 2, -3, -4] 60 False = Inr (- 3)"
    by (simp add: computeIsovalueFromPercentage_Density_def)
  show ?thesis using h C1_consistency_amended [OF h] by auto
qed

subsection \<open>C2\<close>

text \<open>
  C2 (as amended). For every non-empty list of grid values, every percent, every isovalue
  and every sign flag, negating every grid value leaves the output of
  \<^verbatim>\<open>computePercentageFromIsovalue_Orbital\<close> unchanged and negates the isovalue that
  \<^verbatim>\<open>computeIsovalueFromPercentage_Orbital\<close> returns (which always succeeds on a non-empty
  list): the function returns the raw grid value \<^verbatim>\<open>p.value\<close> of the crossing point, not the
  square root of its density. The sort compares densities only, so it permutes the negated
  points exactly as it permutes the original ones.
\<close>

theorem C2_orbital_negation:
  assumes "vals \<noteq> []"
  shows "\<exists>r. computeIsovalueFromPercentage_Orbital vals percent positive = Inr r
             \<and> computeIsovalueFromPercentage_Orbital (map uminus vals) percent positive = Inr (- r)
             \<and> computePercentageFromIsovalue_Orbital (map uminus vals) isovalue positive
                 = computePercentageFromIsovalue_Orbital vals isovalue positive"
proof -
  obtain r where r: "computeIsovalueFromPercentage_Orbital vals percent positive = Inr r"
    using iso_orbital_succeeds [OF assms] by blast
  then have "computeIsovalueFromPercentage_Orbital (map uminus vals) percent positive = Inr (- r)"
    by (simp add: iso_orbital_negate)
  with r show ?thesis by (simp add: pct_orbital_negate)
qed

text \<open>
  The claim as written fails on the one-point grid \<open>[1]\<close> at 50 percent: the isovalue is 1,
  and \<open>-1\<close> for the negated grid.
\<close>

theorem C2_counterexample:
  "computeIsovalueFromPercentage_Orbital (map uminus [1]) 50 True
     \<noteq> computeIsovalueFromPercentage_Orbital [1] 50 True"
  by (simp add: computeIsovalueFromPercentage_Orbital_def)

text \<open>
  The amended statement at \<open>[3,-2,1]\<close> and 80 percent: the densities are 9, 4 and 1, the
  target is 11.2, and the crossing point is the one with raw value \<open>-2\<close>.
\<close>

theorem C2_orbital_negation_witness:
  "[3, -2, 1::real] \<noteq> []
   \<and> computeIsovalueFromPercentage_Orbital [3, -2, 1] 80 True = Inr (- 2)
   \<and> computeIsovalueFromPercentage_Orbital (map uminus [3, -2, 1]) 80 True = Inr 2
   \<and> computePercentageFromIsovalue_Orbital (map uminus [3, -2, 1]) 2 True
       = computePercentageFromIsovalue_Orbital [3, -2, 1] 2 True"
proof -
  have h: "[3, -2, 1::real] \<noteq> []" by simp
  have e: "computeIsovalueFromPercentage_Orbital [3, -2, 1] 80 True = Inr (- 2)"
    by (simp add: computeIsovalueFromPercentage_Orbital_def)
  show ?thesis using h e C2_orbital_negation [OF h, of 80 True 2] by simp
qed

subsection \<open>C3\<close>

text \<open>
  C3. For every value \<open>v\<close> and both values of the flag,
  \<^verbatim>\<open>convertDensity(v, nativeIsAngstrom)\<close> is \<open>v / 0.529177210544^3\<close>; in particular the flag
  has no effect on the result.
\<close>

theorem C3_convertDensity:
  "convertDensity v nativeIsAngstrom = v / 0.529177210544 ^ 3
   \<and> convertDensity v True = convertDensity v False"
  by (simp add: convertDensity_def)

subsection \<open>C5\<close>

text \<open>
  C5. For the density values \<open>[1,2,3,4]\<close>, \<open>percent = 50\<close> and the positive sign,
  \<^verbatim>\<open>computeIsovalueFromPercentage_Density\<close> returns exactly 3: the filtered total is 10, the
  target is 5, the values sorted descending are \<open>[4,3,2,1]\<close>, and the first running sum that
  reaches the target is \<open>4 + 3 = 7\<close>.
\<close>

theorem C5_worked_example:
  "sum_loop 0 (sign_filter True [1, 2, 3, 4]) = 10
   \<and> std_sort (\<lambda>a b. a > b) (sign_filter True [1, 2, 3, 4]) = [4, 3, 2, 1]
   \<and> accumulate_ge 5 0 [4, 3, 2, 1] = Some 3
   \<and> computeIsovalueFromPercentage_Density [1, 2, 3, 4] 50 True = Inr 3"
  by (simp add: computeIsovalueFromPercentage_Density_def)

subsection \<open>C6\<close>

text \<open>
  C6. The claim: a file with a well-formed header whose grid section holds a number of
  values different from \<open>dims[0]*dims[1]*dims[2]\<close> is rejected with the count-mismatch
  error. \<^verbatim>\<open>readCubeFile\<close> computes the expected count in \<^verbatim>\<open>size_t\<close>, where the product
  wraps around at \<open>2^64\<close>. For the dimensions 4194304, 2097152 and 2097152 the product is
  \<open>2^64\<close> and \<^verbatim>\<open>totalPoints\<close> is 0: the file \<open>overflow_cube\<close>, which has these three
  positive dimensions and no grid value at all, is accepted, and a header with an empty grid
  is returned.
\<close>

theorem C6_overflow_accepted:
  "readCubeFile (\<lambda>f. if f = ''big.cube'' then Some overflow_cube else None) ''big.cube''
     = Inr \<lparr>header =
              \<lparr>comment1 = ''density'', comment2 = ''empty grid'', numAtoms = 0,
               origin = (0, 0, 0), dims = (4194304, 2097152, 2097152),
               axisVectors = ((4194304, 1, 0, 0), (2097152, 0, 1, 0), (2097152, 0, 0, 1)),
               calcType = ''Generic'', isOrbital = False\<rparr>,
            values = []\<rparr>
   \<and> int (length ([] :: real list)) \<noteq> 4194304 * 2097152 * 2097152
   \<and> unat (word_of_int 4194304 * word_of_int 2097152 * word_of_int 2097152 :: 64 word) = 0"
  by (simp add: readCubeFile_def read_axis_def overflow_cube_lines overflow_cube_numbers
      overflow_cube_comments read_values_at_end vector_max_size_def)

subsection \<open>C7\<close>

text \<open>
  C7. For every grid whose values are all zero (the empty grid included), every isovalue and
  every sign flag, \<^verbatim>\<open>computePercentageFromIsovalue_Density\<close> and
  \<^verbatim>\<open>computePercentageFromIsovalue_Orbital\<close> both fail with the zero-total error.
\<close>

theorem C7_all_zero_grid:
  assumes "\<forall>v \<in> set vals. v = 0"
  shows "computePercentageFromIsovalue_Density vals isovalue positive = Inl ZeroTotalError
         \<and> computePercentageFromIsovalue_Orbital vals isovalue positive = Inl ZeroTotalError"
  using assms
  by (simp add: computePercentageFromIsovalue_Density_def density_loop_eq all_zero_sign_filter
      computePercentageFromIsovalue_Orbital_def orbital_loop_eq all_zero_squares)

text \<open>
  At the grid \<open>[0,0,0]\<close>.
\<close>

theorem C7_all_zero_grid_witness:
  "computePercentageFromIsovalue_Density [0, 0, 0] 1 True = Inl ZeroTotalError
   \<and> computePercentageFromIsovalue_Orbital [0, 0, 0] 1 True = Inl ZeroTotalError"
proof -
  have h: "\<forall>v \<in> set [0, 0, 0::real]. v = 0" by simp
  show ?thesis using C7_all_zero_grid [OF h, of 1 True] by simp
qed

subsection \<open>C8\<close>

text \<open>
  C8. For every header, \<^verbatim>\<open>detectAngstrom\<close> returns true if either comment contains
  "angstrom" case-insensitively; otherwise false if either comment contains "bohr"
  case-insensitively; otherwise the truth value of: the average of the Euclidean norms of
  the three axis direction vectors is greater than 2. The function has no failure branch:
  its model returns a \<open>bool\<close> for every header.
\<close>

theorem C8_detectAngstrom:
  "detectAngstrom h =
     (if contains_ci (comment1 h) ''angstrom'' \<or> contains_ci (comment2 h) ''angstrom''
      then True
      else if contains_ci (comment1 h) ''bohr'' \<or> contains_ci (comment2 h) ''bohr''
      then False
      else (case axisVectors h of
              (a, b, c) \<Rightarrow> (euclidean_norm a + euclidean_norm b + euclidean_norm c) / 3 > 2))"
  by (simp add: detectAngstrom_def icontains_iff axis_length_loop_eq Let_def add.assoc
      split: prod.splits)

text \<open>
  At two headers with axis vectors of length 3: one whose second comment is "in Bohr", and one
  with no unit word in its comments.
\<close>

theorem C8_detectAngstrom_witness:
  "contains_ci ''in Bohr'' ''bohr''
   \<and> detectAngstrom
     \<lparr>comment1 = ''cube'', comment2 = ''in Bohr'', numAtoms = 1, origin = (0, 0, 0),
      dims = (2, 2, 2), axisVectors = ((2, 3, 0, 0), (2, 0, 3, 0), (2, 0, 0, 3)),
      calcType = ''Generic'', isOrbital = True\<rparr> = False
   \<and> (euclidean_norm (2, 3, 0, 0) + euclidean_norm (2, 0, 3, 0) + euclidean_norm (2, 0, 0, 3)) / 3
        = 3
   \<and> detectAngstrom
     \<lparr>comment1 = ''cube'', comment2 = ''file'', numAtoms = 1, origin = (0, 0, 0),
      dims = (2, 2, 2), axisVectors = ((2, 3, 0, 0), (2, 0, 3, 0), (2, 0, 0, 3)),
      calcType = ''Generic'', isOrbital = True\<rparr> = True"
proof -
  have no: "\<not> contains_ci ''cube'' ''angstrom''" "\<not> contains_ci ''in Bohr'' ''angstrom''"
    "\<not> contains_ci ''file'' ''angstrom''" "\<not> contains_ci ''cube'' ''bohr''"
    "\<not> contains_ci ''file'' ''bohr''"
    by (simp_all add: icontains_iff [symmetric] icontains_def tolower_def)
  have yes: "contains_ci ''in Bohr'' ''bohr''"
    by (simp add: icontains_iff [symmetric] icontains_def tolower_def)
  have e: "(euclidean_norm (2, 3, 0, 0) + euclidean_norm (2, 0, 3, 0) + euclidean_norm (2, 0, 0, 3)) / 3
        = 3"
    by (simp add: euclidean_norm_def)
  have d1: "detectAngstrom
     \<lparr>comment1 = ''cube'', comment2 = ''in Bohr'', numAtoms = 1, origin = (0, 0, 0),
      dims = (2, 2, 2), axisVectors = ((2, 3, 0, 0), (2, 0, 3, 0), (2, 0, 0, 3)),
      calcType = ''Generic'', isOrbital = True\<rparr> = False"
    by (simp add: C8_detectAngstrom no yes)
  have d2: "detectAngstrom
     \<lparr>comment1 = ''cube'', comment2 = ''file'', numAtoms = 1, origin = (0, 0, 0),
      dims = (2, 2, 2), axisVectors = ((2, 3, 0, 0), (2, 0, 3, 0), (2, 0, 0, 3)),
      calcType = ''Generic'', isOrbital = True\<rparr> = True"
    using e by (simp add: C8_detectAngstrom no)
  from yes d1 e d2 show ?thesis by blast
qed

subsection \<open>C9\<close>

text \<open>
  C9. Mirror symmetry of the density branches: for every list of grid values and every
  percent, \<^verbatim>\<open>computeIsovalueFromPercentage_Density\<close> on the negated list with the negative
  sign returns the negation of what it returns on the original list with the positive sign,
  and one call fails with the no-matching-sign error exactly when the other does.
\<close>

theorem C9_density_mirror:
  "computeIsovalueFromPercentage_Density (map uminus vals) percent False =
     (case computeIsovalueFromPercentage_Density vals percent True of
        Inl e \<Rightarrow> Inl e | Inr r \<Rightarrow> Inr (- r))
   \<and> (computeIsovalueFromPercentage_Density (map uminus vals) percent False
         = Inl NoMatchingSignError)
     = (computeIsovalueFromPercentage_Density vals percent True = Inl NoMatchingSignError)"
  by (simp add: iso_density_mirror split: sum.splits)

subsection \<open>C10\<close>

text \<open>
  C10. For every list of grid values, every isovalue and every sign flag, whenever
  \<^verbatim>\<open>computePercentageFromIsovalue_Density\<close> (respectively
  \<^verbatim>\<open>computePercentageFromIsovalue_Orbital\<close>) does not fail with the zero-total error, it
  returns a percentage in the closed interval \<open>[0, 100]\<close>.
\<close>

theorem C10_percentage_range:
  "(computePercentageFromIsovalue_Density vals isovalue positive \<noteq> Inl ZeroTotalError \<longrightarrow>
      (\<exists>q. computePercentageFromIsovalue_Density vals isovalue positive = Inr q
           \<and> 0 \<le> q \<and> q \<le> 100))
   \<and> (computePercentageFromIsovalue_Orbital vals isovalue positive \<noteq> Inl ZeroTotalError \<longrightarrow>
      (\<exists>q. computePercentageFromIsovalue_Orbital vals isovalue positive = Inr q
           \<and> 0 \<le> q \<and> q \<le> 100))"
proof (intro conjI impI)
  assume a: "computePercentageFromIsovalue_Density vals isovalue positive \<noteq> Inl ZeroTotalError"
  then obtain q where "computePercentageFromIsovalue_Density vals isovalue positive = Inr q"
    using pct_density_error by (cases "computePercentageFromIsovalue_Density vals isovalue positive") auto
  then show "\<exists>q. computePercentageFromIsovalue_Density vals isovalue positive = Inr q
           \<and> 0 \<le> q \<and> q \<le> 100"
    using pct_density_range by blast
next
  assume a: "computePercentageFromIsovalue_Orbital vals isovalue positive \<noteq> Inl ZeroTotalError"
  then obtain q where "computePercentageFromIsovalue_Orbital vals isovalue positive = Inr q"
    using pct_orbital_error by (cases "computePercentageFromIsovalue_Orbital vals isovalue positive") auto
  then show "\<exists>q. computePercentageFromIsovalue_Orbital vals isovalue positive = Inr q
           \<and> 0 \<le> q \<and> q \<le> 100"
    using pct_orbital_range by blast
qed

text \<open>
  At the grid \<open>[1,-2,3]\<close> and the isovalue 2: the density percentage is 75.
\<close>

theorem C10_percentage_range_witness:
  "computePercentageFromIsovalue_Density [1, -2, 3] 2 True = Inr 75
   \<and> computePercentageFromIsovalue_Density [1, -2, 3] 2 True \<noteq> Inl ZeroTotalError
   \<and> (\<exists>q. computePercentageFromIsovalue_Density [1, -2, 3] 2 True = Inr q \<and> 0 \<le> q \<and> q \<le> 100)
   \<and> computePercentageFromIsovalue_Orbital [1, -2, 3] 2 True \<noteq> Inl ZeroTotalError
   \<and> (\<exists>q. computePercentageFromIsovalue_Orbital [1, -2, 3] 2 True = Inr q \<and> 0 \<le> q \<and> q \<le> 100)"
proof -
  have d: "computePercentageFromIsovalue_Density [1, -2, 3] 2 True = Inr 75"
    by (simp add: computePercentageFromIsovalue_Density_def)
  have o: "computePercentageFromIsovalue_Orbital [1, -2, 3] 2 True \<noteq> Inl ZeroTotalError"
    by (simp add: computePercentageFromIsovalue_Orbital_def)
  show ?thesis
    using d o C10_percentage_range [of "[1, -2, 3]" 2 True] by simp
qed

end
